theory Spec2Isabelle
  imports Complex_Main
begin

section \<open>Numbers\<close>

text \<open>
  The analytics core computes on JavaScript numbers. Input observations and smoothing
  parameters are modelled as finite reals and the arithmetic on them as exact (overflow is
  not modelled, and rounding is modelled only where a comparison of computed numbers
  decides a category: in the migration signal analyzer). A division whose divisor can be zero leaves the finite
  numbers in JavaScript, so the results of such divisions, and everything computed from
  them, are values of \<open>number\<close>: a finite real, one of the two infinities, or NaN.
  A zero input is the positive zero.
\<close>

datatype number = Num real | PosInfinity | NegInfinity | NaN

fun num_neg :: "number \<Rightarrow> number" where
  "num_neg (Num a) = Num (- a)"
| "num_neg PosInfinity = NegInfinity"
| "num_neg NegInfinity = PosInfinity"
| "num_neg NaN = NaN"

fun num_abs :: "number \<Rightarrow> number" where
  "num_abs (Num a) = Num \<bar>a\<bar>"
| "num_abs PosInfinity = PosInfinity"
| "num_abs NegInfinity = PosInfinity"
| "num_abs NaN = NaN"

fun num_add :: "number \<Rightarrow> number \<Rightarrow> number" where
  "num_add NaN y = NaN"
| "num_add x NaN = NaN"
| "num_add (Num a) (Num b) = Num (a + b)"
| "num_add (Num a) y = y"
| "num_add x (Num b) = x"
| "num_add PosInfinity PosInfinity = PosInfinity"
| "num_add NegInfinity NegInfinity = NegInfinity"
| "num_add PosInfinity NegInfinity = NaN"
| "num_add NegInfinity PosInfinity = NaN"

definition num_sub :: "number \<Rightarrow> number \<Rightarrow> number" where
  "num_sub x y = num_add x (num_neg y)"

definition signed_infinity :: "bool \<Rightarrow> number" where
  "signed_infinity positive = (if positive then PosInfinity else NegInfinity)"

fun num_mul :: "number \<Rightarrow> number \<Rightarrow> number" where
  "num_mul NaN y = NaN"
| "num_mul x NaN = NaN"
| "num_mul (Num a) (Num b) = Num (a * b)"
| "num_mul (Num a) PosInfinity = (if a = 0 then NaN else signed_infinity (0 < a))"
| "num_mul (Num a) NegInfinity = (if a = 0 then NaN else signed_infinity (a < 0))"
| "num_mul PosInfinity (Num b) = (if b = 0 then NaN else signed_infinity (0 < b))"
| "num_mul NegInfinity (Num b) = (if b = 0 then NaN else signed_infinity (b < 0))"
| "num_mul PosInfinity PosInfinity = PosInfinity"
| "num_mul NegInfinity NegInfinity = PosInfinity"
| "num_mul PosInfinity NegInfinity = NegInfinity"
| "num_mul NegInfinity PosInfinity = NegInfinity"

fun num_div :: "number \<Rightarrow> number \<Rightarrow> number" where
  "num_div NaN y = NaN"
| "num_div x NaN = NaN"
| "num_div (Num a) (Num b) =
     (if b = 0 then (if a = 0 then NaN else signed_infinity (0 < a)) else Num (a / b))"
| "num_div (Num a) y = Num 0"
| "num_div PosInfinity (Num b) = signed_infinity (0 \<le> b)"
| "num_div NegInfinity (Num b) = signed_infinity (b < 0)"
| "num_div x y = NaN"

section \<open>Exponential-smoothing forecaster\<close>

record HoltWintersParams =
  alpha :: real
  beta :: real

record ConfidenceBands =
  lower :: "number list"
  upper :: "number list"

record ProjectionResult =
  forecast :: "real list"
  confidenceBands :: ConfidenceBands
  mape :: number

record TimeSeriesPoint =
  period :: int
  point_value :: real

datatype error = Error string

text \<open>The default smoothing parameters \<open>{ alpha: 0.3, beta: 0.1 }\<close>.\<close>

definition default_params :: HoltWintersParams where
  "default_params = \<lparr>alpha = 3 / 10, beta = 1 / 10\<rparr>"

text \<open>
  The smoothing loop \<open>for (let i = 1; i < n; i++)\<close>: the state is the current level, the
  current trend and the list of smoothed values pushed so far.
\<close>

function smooth_loop ::
  "HoltWintersParams \<Rightarrow> real list \<Rightarrow> nat \<Rightarrow> nat \<Rightarrow> real \<times> real \<times> real list
     \<Rightarrow> real \<times> real \<times> real list" where
  "smooth_loop params vals n i (level, trend, smoothed) =
     (if i < n then
        let prevLevel = level;
            level' = alpha params * vals ! i + (1 - alpha params) * (level + trend);
            trend' = beta params * (level' - prevLevel) + (1 - beta params) * trend
        in smooth_loop params vals n (Suc i) (level', trend', smoothed @ [level'])
      else (level, trend, smoothed))"
  by pat_completeness auto
termination
  by (relation "measure (\<lambda>(params, vals, n, i, s). n - i)") auto

declare smooth_loop.simps [simp del]

text \<open>
  The forecast loop \<open>for (let i = 1; i <= periods; i++)\<close>; the horizon is a whole number
  of periods, and a horizon below 1 leaves the forecast empty.
\<close>

function forecast_loop :: "real \<Rightarrow> real \<Rightarrow> int \<Rightarrow> int \<Rightarrow> real list \<Rightarrow> real list" where
  "forecast_loop level trend periods i acc =
     (if i \<le> periods
      then forecast_loop level trend periods (i + 1) (acc @ [level + of_int i * trend])
      else acc)"
  by pat_completeness auto
termination
  by (relation "measure (\<lambda>(level, trend, periods, i, acc). nat (periods + 1 - i))") auto

declare forecast_loop.simps [simp del]

text \<open>
  One entry of \<open>errors\<close>: \<open>Math.abs((actual - smoothed[i]) / actual) * 100\<close>. The index
  \<open>i\<close> counts from 0 in \<open>values.slice(1)\<close>, and \<open>smoothed\<close> has as many entries as
  \<open>values\<close>, so \<open>smoothed[i]\<close> is always in range.
\<close>

definition percentage_error :: "real list \<Rightarrow> nat \<times> real \<Rightarrow> number" where
  "percentage_error smoothed = (\<lambda>(i, actual).
     num_mul (num_abs (num_div (Num (actual - smoothed ! i)) (Num actual))) (Num 100))"

definition holtWintersForecast ::
  "TimeSeriesPoint list \<Rightarrow> int \<Rightarrow> HoltWintersParams \<Rightarrow> error + ProjectionResult" where
  "holtWintersForecast data periods params =
     (if length data < 2 then Inl (Error ''Need at least 2 data points for forecasting'')
      else
        let vals = map point_value data;
            n = length vals;
            level0 = vals ! 0;
            trend0 = (if length vals > 1 then vals ! 1 - vals ! 0 else 0);
            (level, trend, smoothed) = smooth_loop params vals n 1 (level0, trend0, [level0]);
            fc = forecast_loop level trend periods 1 [];
            errors = map (percentage_error smoothed) (enumerate 0 (drop 1 vals));
            m = num_div (foldl num_add (Num 0) errors) (Num (real (length errors)));
            bands = \<lparr>lower = map (\<lambda>f. num_mul (Num f) (num_sub (Num 1) (num_div m (Num 100)))) fc,
                     upper = map (\<lambda>f. num_mul (Num f) (num_add (Num 1) (num_div m (Num 100)))) fc\<rparr>
        in Inr \<lparr>forecast = fc, confidenceBands = bands, mape = m\<rparr>)"

text \<open>
  The list \<open>smoothed\<close> that \<open>holtWintersForecast\<close> builds for a series of values, and
  the final level and trend the smoothing loop leaves behind.
\<close>

definition smoothed_values :: "HoltWintersParams \<Rightarrow> real list \<Rightarrow> real list" where
  "smoothed_values params vals =
     (case smooth_loop params vals (length vals) 1
             (vals ! 0, (if length vals > 1 then vals ! 1 - vals ! 0 else 0), [vals ! 0]) of
        (level, trend, smoothed) \<Rightarrow> smoothed)"

text \<open>
  \<open>generateProjections\<close> evaluates the three forecasts in the order of the object literal;
  the first forecast that throws ends the call.
\<close>

record Projections =
  income :: ProjectionResult
  population :: ProjectionResult
  age :: ProjectionResult

definition generateProjections ::
  "TimeSeriesPoint list \<Rightarrow> TimeSeriesPoint list \<Rightarrow> TimeSeriesPoint list \<Rightarrow> error + Projections" where
  "generateProjections incomeData populationData ageData =
     (case holtWintersForecast incomeData 10 default_params of
        Inl e \<Rightarrow> Inl e
      | Inr incomeResult \<Rightarrow>
          (case holtWintersForecast populationData 10 default_params of
             Inl e \<Rightarrow> Inl e
           | Inr populationResult \<Rightarrow>
               (case holtWintersForecast ageData 10 default_params of
                  Inl e \<Rightarrow> Inl e
                | Inr ageResult \<Rightarrow>
                    Inr \<lparr>income = incomeResult, population = populationResult,
                         age = ageResult\<rparr>)))"

text \<open>
  A field of a returned object holds a number, \<open>null\<close> or \<open>undefined\<close>; reading an array
  at \<open>length - 1\<close> gives \<open>undefined\<close> when the array is empty. The nested objects
  \<open>p25\<close> and \<open>p75\<close> have the single field \<open>hh_income_idx\<close> and are flattened.
\<close>

datatype 'a jsval = Undefined | Null | Val 'a

definition last_element :: "'a list \<Rightarrow> 'a jsval" where
  "last_element xs = (if xs = [] then Undefined else Val (xs ! (length xs - 1)))"

record Proj10 =
  population_idx :: "number jsval"
  hh_income_idx :: "number jsval"
  age_median :: "number jsval"
  p25_hh_income_idx :: "number jsval"
  p75_hh_income_idx :: "number jsval"

definition formatProjectionForAPI :: "ProjectionResult \<Rightarrow> int \<Rightarrow> Proj10" where
  "formatProjectionForAPI result baseYear =
     (let finalYear = baseYear + 10;
          finalForecast = last_element (map Num (forecast result));
          finalLower = last_element (lower (confidenceBands result));
          finalUpper = last_element (upper (confidenceBands result))
      in \<lparr>population_idx = finalForecast,
          hh_income_idx = finalForecast,
          age_median = finalForecast,
          p25_hh_income_idx = finalLower,
          p75_hh_income_idx = finalUpper\<rparr>)"

section \<open>Snapshot aggregator: the projection step\<close>

text \<open>
  An observation as \<open>getLatestMetricData\<close> returns it; the \<open>Date\<close> of its period is
  represented by the year that \<open>getFullYear()\<close> reads from it.
\<close>

record Observation =
  obs_period :: int
  obs_value :: real

record ProjectionData =
  income_data :: "Observation list"
  age_data :: "Observation list"

definition to_point :: "Observation \<Rightarrow> TimeSeriesPoint" where
  "to_point d = \<lparr>period = obs_period d, point_value = obs_value d\<rparr>"

text \<open>
  An operand of a division is converted to a number (\<open>undefined\<close> to NaN, \<open>null\<close> to 0),
  and \<open>x || 1.0\<close> replaces the falsy numbers 0 and NaN by the default.
\<close>

fun to_number :: "number jsval \<Rightarrow> number" where
  "to_number Undefined = NaN"
| "to_number Null = Num 0"
| "to_number (Val x) = x"

definition first_value :: "Observation list \<Rightarrow> number jsval" where
  "first_value ds = (case ds of [] \<Rightarrow> Undefined | d # rest \<Rightarrow> Val (Num (obs_value d)))"

definition js_or :: "number \<Rightarrow> number \<Rightarrow> number" where
  "js_or x d = (if x = NaN \<or> x = Num 0 then d else x)"

definition neutral_projection :: Proj10 where
  "neutral_projection =
     \<lparr>population_idx = Val (Num 1), hh_income_idx = Val (Num 1), age_median = Null,
      p25_hh_income_idx = Val (Num 1), p75_hh_income_idx = Val (Num 1)\<rparr>"

text \<open>
  \<open>calculateProjections\<close>: the body of the \<open>try\<close> block, with the \<open>catch\<close> block as the
  branch taken when either forecast throws. The warning it logs is not modelled.
\<close>

definition calculateProjections :: "string \<Rightarrow> ProjectionData \<Rightarrow> Proj10" where
  "calculateProjections geoId data =
     (case holtWintersForecast (map to_point (income_data data)) 10 default_params of
        Inl e \<Rightarrow> neutral_projection
      | Inr incomeProjection \<Rightarrow>
          (case holtWintersForecast (map to_point (age_data data)) 10 default_params of
             Inl e \<Rightarrow> neutral_projection
           | Inr ageProjection \<Rightarrow>
               \<lparr>population_idx = Val (Num (106 / 100)),
                hh_income_idx = Val (js_or
                  (num_div (to_number (last_element (map Num (forecast incomeProjection))))
                     (to_number (first_value (income_data data)))) (Num 1)),
                age_median = last_element (map Num (forecast ageProjection)),
                p25_hh_income_idx = Val (js_or
                  (num_div (to_number (last_element (lower (confidenceBands incomeProjection))))
                     (to_number (first_value (income_data data)))) (Num 1)),
                p75_hh_income_idx = Val (js_or
                  (num_div (to_number (last_element (upper (confidenceBands incomeProjection))))
                     (to_number (first_value (income_data data)))) (Num 1))\<rparr>))"

section \<open>CAGR calculator\<close>

text \<open>
  On a positive base \<open>Math.pow\<close> is the real power \<open>powr\<close>; the guard keeps the base
  positive and the divisors non-zero.
\<close>

definition calculateCAGR :: "real \<Rightarrow> real \<Rightarrow> real \<Rightarrow> real" where
  "calculateCAGR startValue endValue years =
     (if startValue \<le> 0 \<or> endValue \<le> 0 \<or> years \<le> 0 then 0
      else (endValue / startValue) powr (1 / years) - 1)"

section \<open>Migration signal analyzer\<close>

record MigrationDataPoint =
  year :: int
  netMigration1834 :: real

datatype Trend = increasing | decreasing | stable

datatype Confidence = high | medium | low

record MigrationSignal =
  netMigration :: real
  rollingAverage :: real
  trend :: Trend
  confidence :: Confidence

definition calculateRollingAverage :: "MigrationDataPoint list \<Rightarrow> int \<Rightarrow> real" where
  "calculateRollingAverage data currentYear =
     (let recentYears =
            map netMigration1834
              (filter (\<lambda>d. year d \<ge> currentYear - 2 \<and> year d \<le> currentYear) data)
      in if length recentYears = 0 then 0
         else foldl (\<lambda>sum val. sum + val) 0 recentYears / real (length recentYears))"

text \<open>
  The trend and the confidence are categories decided by comparisons, so for
  \<open>analyzeMigrationSignal\<close> the rounding of the number type is modelled: every addition,
  subtraction and division returns the double nearest to the exact result, ties going to
  the even significand (53 bits, gradual underflow below \<open>2^-1022\<close>; overflow is not
  modelled). Comparisons of doubles are exact. \<open>quantum k\<close> is 2 to the power \<open>k\<close>.
\<close>

definition round_even :: "real \<Rightarrow> int" where
  "round_even x =
     (let f = \<lfloor>x\<rfloor>; d = x - of_int f
      in if d < 1 / 2 then f else if 1 / 2 < d then f + 1 else if even f then f else f + 1)"

definition quantum :: "int \<Rightarrow> real" where
  "quantum k = (if 0 \<le> k then 2 ^ nat k else 1 / 2 ^ nat (- k))"

definition double_round :: "real \<Rightarrow> real" where
  "double_round x =
     (if x = 0 then 0
      else let e = max \<lfloor>log 2 \<bar>x\<bar>\<rfloor> (- 1022); q = quantum (e - 52)
           in of_int (round_even (x / q)) * q)"

text \<open>
  \<open>calculateRollingAverage\<close> as it runs on doubles: each step of the \<open>reduce\<close> and the
  final division is rounded.
\<close>

definition calculateRollingAverage_double :: "MigrationDataPoint list \<Rightarrow> int \<Rightarrow> real" where
  "calculateRollingAverage_double data currentYear =
     (let recentYears =
            map netMigration1834
              (filter (\<lambda>d. year d \<ge> currentYear - 2 \<and> year d \<le> currentYear) data)
      in if length recentYears = 0 then 0
         else double_round
                (foldl (\<lambda>sum val. double_round (sum + val)) 0 recentYears
                   / real (length recentYears)))"

text \<open>
  \<open>analyzeMigrationSignal\<close> with the reference year given explicitly (the source defaults
  it to the current calendar year). \<open>currentData?.netMigration1834 || 0\<close> is 0 when no
  point has the reference year or when its value is 0.
\<close>

definition analyzeMigrationSignal :: "MigrationDataPoint list \<Rightarrow> int \<Rightarrow> MigrationSignal" where
  "analyzeMigrationSignal data currentYear =
     (let currentData = find (\<lambda>d. year d = currentYear) data;
          rollingAvg = calculateRollingAverage_double data currentYear;
          recentAverage = calculateRollingAverage_double data currentYear;
          previousAverage = calculateRollingAverage_double data (currentYear - 3);
          tr = (if recentAverage > double_round (previousAverage + 10) then increasing
                else if recentAverage < double_round (previousAverage - 10) then decreasing
                else stable);
          dataPoints = length (filter (\<lambda>d. year d \<ge> currentYear - 4) data);
          conf = (if dataPoints \<ge> 4 \<and> \<bar>double_round (recentAverage - previousAverage)\<bar> > 20
                  then high
                  else if dataPoints \<ge> 3 then medium
                  else low)
      in \<lparr>netMigration =
            (case currentData of None \<Rightarrow> 0
             | Some d \<Rightarrow> if netMigration1834 d = 0 then 0 else netMigration1834 d),
          rollingAverage = rollingAvg,
          trend = tr,
          confidence = conf\<rparr>)"

section \<open>The algorithm of the forecaster as the specification words it\<close>

text \<open>
  One smoothing step on a (level, trend) pair, and the pair reached from
  \<open>(values[0], values[1] - values[0])\<close> by stepping through every point after the first.
\<close>

definition holt_step :: "HoltWintersParams \<Rightarrow> real \<times> real \<Rightarrow> real \<Rightarrow> real \<times> real" where
  "holt_step params = (\<lambda>(level, trend) v.
     let newLevel = alpha params * v + (1 - alpha params) * (level + trend);
         newTrend = beta params * (newLevel - level) + (1 - beta params) * trend
     in (newLevel, newTrend))"

definition holt_final :: "HoltWintersParams \<Rightarrow> real list \<Rightarrow> real \<times> real" where
  "holt_final params vals =
     foldl (holt_step params) (vals ! 0, vals ! 1 - vals ! 0) (drop 1 vals)"

text \<open>
  The mean absolute percentage error over the fitted points after the first, with each
  term taken as \<open>|actual - fitted| / actual * 100\<close>, and with each term taken as
  \<open>|(actual - fitted) / actual| * 100\<close>.
\<close>

definition mape_unsigned_numerator :: "real list \<Rightarrow> real list \<Rightarrow> real" where
  "mape_unsigned_numerator vals smoothed =
     (\<Sum>i\<leftarrow>[1..<length vals]. \<bar>vals ! i - smoothed ! (i - 1)\<bar> / vals ! i * 100)
       / real (length vals - 1)"

definition mape_absolute_ratio :: "real list \<Rightarrow> real list \<Rightarrow> real" where
  "mape_absolute_ratio vals smoothed =
     (\<Sum>i\<leftarrow>[1..<length vals]. \<bar>(vals ! i - smoothed ! (i - 1)) / vals ! i\<bar> * 100)
       / real (length vals - 1)"

section \<open>Properties of the two loops\<close>

lemma smooth_loop_foldl:
  "n = length vals \<Longrightarrow>
   (case smooth_loop params vals n i (l, t, sm) of (L, T, S) \<Rightarrow> (L, T)) =
     foldl (holt_step params) (l, t) (drop i vals)"
proof (induction params vals n i "(l, t, sm)" arbitrary: l t sm rule: smooth_loop.induct)
  case (1 params vals n i lv tr smoothed)
  show ?case
  proof (cases "i < n")
    case True
    then have d: "drop i vals = vals ! i # drop (Suc i) vals"
      using "1.prems" by (simp add: Cons_nth_drop_Suc)
    show ?thesis
      using True "1.hyps"[OF True refl refl refl "1.prems"]
      by (subst smooth_loop.simps) (simp add: d holt_step_def Let_def)
  next
    case False
    then show ?thesis
      using "1.prems" by (subst smooth_loop.simps) simp
  qed
qed

lemma smooth_loop_length:
  "length (snd (snd (smooth_loop params vals n i (l, t, sm)))) = length sm + (n - i)"
proof (induction params vals n i "(l, t, sm)" arbitrary: l t sm rule: smooth_loop.induct)
  case (1 params vals n i lv tr smoothed)
  show ?case
  proof (cases "i < n")
    case True
    with 1 show ?thesis by (simp add: smooth_loop.simps[of params vals n i] Let_def)
  next
    case False
    then show ?thesis by (simp add: smooth_loop.simps[of params vals n i])
  qed
qed

lemma forecast_loop_map:
  "forecast_loop lv tr periods i acc =
     acc @ map (\<lambda>j. lv + of_int j * tr) [i..periods]"
proof (induction lv tr periods i acc rule: forecast_loop.induct)
  case (1 lv tr periods i acc)
  show ?case
  proof (cases "i \<le> periods")
    case True
    then have u: "[i..periods] = i # [i + 1..periods]"
      by (simp add: upto_rec1)
    show ?thesis
      using True "1.IH"[OF True]
      by (simp add: forecast_loop.simps[of lv tr periods i] u)
  next
    case False
    then show ?thesis
      by (simp add: forecast_loop.simps[of lv tr periods i])
  qed
qed

lemma foldl_num_add_Num:
  "foldl num_add (Num a) (map Num xs) = Num (a + sum_list xs)"
  by (induction xs arbitrary: a) (simp_all add: add.assoc)

lemma map_enumerate_drop1:
  "map f (enumerate 0 (drop 1 vals)) = map (\<lambda>i. f (i - 1, vals ! i)) [1..<length vals]"
  by (rule nth_equalityI) (simp_all add: nth_enumerate_eq)

lemma smoothed_values_length:
  "vals \<noteq> [] \<Longrightarrow> length (smoothed_values params vals) = length vals"
  unfolding smoothed_values_def
  by (cases vals) (simp_all add: case_prod_beta smooth_loop_length)

lemma foldl_add_sum_list:
  "foldl (\<lambda>sum val. sum + val) (a::real) xs = a + sum_list xs"
  by (induction xs arbitrary: a) (simp_all add: add.assoc)

section \<open>The result of the forecaster, field by field\<close>

lemma holtWintersForecast_unfold:
  assumes len: "2 \<le> length data"
    and loop: "smooth_loop params (map point_value data) (length data) 1
                 (map point_value data ! 0,
                  map point_value data ! 1 - map point_value data ! 0,
                  [map point_value data ! 0]) = (L, T, S)"
  shows "holtWintersForecast data periods params =
     (let fc = forecast_loop L T periods 1 [];
          m = num_div (foldl num_add (Num 0)
                (map (percentage_error S) (enumerate 0 (drop 1 (map point_value data)))))
                (Num (real (length data - 1)))
      in Inr \<lparr>forecast = fc,
              confidenceBands =
                \<lparr>lower = map (\<lambda>f. num_mul (Num f) (num_sub (Num 1) (num_div m (Num 100)))) fc,
                 upper = map (\<lambda>f. num_mul (Num f) (num_add (Num 1) (num_div m (Num 100)))) fc\<rparr>,
              mape = m\<rparr>)"
proof -
  have gt: "1 < length data" and nlt: "\<not> length data < 2"
    using len by simp_all
  show ?thesis
    unfolding holtWintersForecast_def
    using nlt gt loop by (simp add: Let_def del: nth_map)
qed

lemma holtWintersForecast_forecast:
  assumes len: "2 \<le> length data"
    and res: "holtWintersForecast data periods params = Inr r"
  shows "forecast r =
     map (\<lambda>j. fst (holt_final params (map point_value data))
                + of_int j * snd (holt_final params (map point_value data))) [1..periods]"
proof -
  obtain L T S where loop:
    "smooth_loop params (map point_value data) (length data) 1
       (map point_value data ! 0,
        map point_value data ! 1 - map point_value data ! 0,
        [map point_value data ! 0]) = (L, T, S)"
    by (cases "smooth_loop params (map point_value data) (length data) 1
       (map point_value data ! 0,
        map point_value data ! 1 - map point_value data ! 0,
        [map point_value data ! 0])") auto
  have "(L, T) = holt_final params (map point_value data)"
    using smooth_loop_foldl[of "length data" "map point_value data" params 1
        "map point_value data ! 0" "map point_value data ! 1 - map point_value data ! 0"
        "[map point_value data ! 0]"] loop
    by (simp add: holt_final_def del: nth_map)
  then have LT: "fst (holt_final params (map point_value data)) = L"
    "snd (holt_final params (map point_value data)) = T"
    by (metis fst_conv, metis snd_conv)
  have "forecast r = forecast_loop L T periods 1 []"
    using holtWintersForecast_unfold[OF len loop, of periods] res
    by (auto simp: Let_def)
  then show ?thesis
    by (simp add: forecast_loop_map LT)
qed

lemma holtWintersForecast_mape:
  assumes len: "2 \<le> length data"
    and res: "holtWintersForecast data periods params = Inr r"
  shows "mape r =
     num_div (foldl num_add (Num 0)
        (map (percentage_error (smoothed_values params (map point_value data)))
           (enumerate 0 (drop 1 (map point_value data)))))
       (Num (real (length data - 1)))"
proof -
  obtain L T S where loop:
    "smooth_loop params (map point_value data) (length data) 1
       (map point_value data ! 0,
        map point_value data ! 1 - map point_value data ! 0,
        [map point_value data ! 0]) = (L, T, S)"
    by (cases "smooth_loop params (map point_value data) (length data) 1
       (map point_value data ! 0,
        map point_value data ! 1 - map point_value data ! 0,
        [map point_value data ! 0])") auto
  have gt: "1 < length data"
    using len by simp
  have S: "smoothed_values params (map point_value data) = S"
    unfolding smoothed_values_def using gt loop by (simp del: nth_map)
  show ?thesis
    using holtWintersForecast_unfold[OF len loop, of periods] res
    by (auto simp: Let_def S)
qed

lemma holtWintersForecast_bands:
  assumes len: "2 \<le> length data"
    and res: "holtWintersForecast data periods params = Inr r"
  shows "lower (confidenceBands r) =
           map (\<lambda>f. num_mul (Num f) (num_sub (Num 1) (num_div (mape r) (Num 100))))
             (forecast r)"
    and "upper (confidenceBands r) =
           map (\<lambda>f. num_mul (Num f) (num_add (Num 1) (num_div (mape r) (Num 100))))
             (forecast r)"
proof -
  obtain L T S where loop:
    "smooth_loop params (map point_value data) (length data) 1
       (map point_value data ! 0,
        map point_value data ! 1 - map point_value data ! 0,
        [map point_value data ! 0]) = (L, T, S)"
    by (cases "smooth_loop params (map point_value data) (length data) 1
       (map point_value data ! 0,
        map point_value data ! 1 - map point_value data ! 0,
        [map point_value data ! 0])") auto
  show "lower (confidenceBands r) =
           map (\<lambda>f. num_mul (Num f) (num_sub (Num 1) (num_div (mape r) (Num 100))))
             (forecast r)"
    using holtWintersForecast_unfold[OF len loop, of periods] res
    by (auto simp: Let_def)
  show "upper (confidenceBands r) =
           map (\<lambda>f. num_mul (Num f) (num_add (Num 1) (num_div (mape r) (Num 100))))
             (forecast r)"
    using holtWintersForecast_unfold[OF len loop, of periods] res
    by (auto simp: Let_def)
qed

lemma holtWintersForecast_returns:
  "2 \<le> length data \<Longrightarrow> \<exists>r. holtWintersForecast data periods params = Inr r"
  by (auto simp: holtWintersForecast_def Let_def split: prod.splits)

lemma holtWintersForecast_short:
  "length data < 2 \<Longrightarrow>
   holtWintersForecast data periods params =
     Inl (Error ''Need at least 2 data points for forecasting'')"
  by (simp add: holtWintersForecast_def)

lemma percentage_error_finite:
  "actual \<noteq> 0 \<Longrightarrow>
   percentage_error smoothed (i, actual) = Num (\<bar>(actual - smoothed ! i) / actual\<bar> * 100)"
  by (simp add: percentage_error_def)

lemma errors_finite:
  assumes nz: "\<forall>i. 1 \<le> i \<and> i < length vals \<longrightarrow> vals ! i \<noteq> 0"
  shows "map (percentage_error smoothed) (enumerate 0 (drop 1 vals)) =
         map Num (map (\<lambda>i. \<bar>(vals ! i - smoothed ! (i - 1)) / vals ! i\<bar> * 100)
           [1..<length vals])"
proof -
  have "map (percentage_error smoothed) (enumerate 0 (drop 1 vals)) =
        map (\<lambda>i. percentage_error smoothed (i - 1, vals ! i)) [1..<length vals]"
    by (rule map_enumerate_drop1)
  also have "\<dots> = map (\<lambda>i. Num (\<bar>(vals ! i - smoothed ! (i - 1)) / vals ! i\<bar> * 100))
                     [1..<length vals]"
    using nz by (intro map_cong refl percentage_error_finite) simp
  finally show ?thesis by (simp add: comp_def)
qed

lemma mape_positive_actuals:
  assumes pos: "\<forall>i. 1 \<le> i \<and> i < length vals \<longrightarrow> 0 < vals ! i"
  shows "mape_absolute_ratio vals smoothed = mape_unsigned_numerator vals smoothed"
proof -
  have eq: "map (\<lambda>i. \<bar>(vals ! i - smoothed ! (i - 1)) / vals ! i\<bar> * 100) [1..<length vals] =
        map (\<lambda>i. \<bar>vals ! i - smoothed ! (i - 1)\<bar> / vals ! i * 100) [1..<length vals]"
    using pos by (intro map_cong refl) (auto simp: abs_divide)
  show ?thesis
    unfolding mape_absolute_ratio_def mape_unsigned_numerator_def
    by (simp only: eq)
qed

section \<open>The forecaster fails exactly on fewer than two points\<close>

text \<open>
  C3. For every input series, every horizon and every pair of smoothing parameters,
  \<open>holtWintersForecast\<close> raises its error if and only if the series has fewer than 2
  points; with 2 or more points it returns a result.
\<close>

theorem holtWintersForecast_error_iff:
  "((\<exists>e. holtWintersForecast data periods params = Inl e) \<longleftrightarrow> length data < 2) \<and>
   ((\<exists>r. holtWintersForecast data periods params = Inr r) \<longleftrightarrow> 2 \<le> length data)"
  by (auto simp: holtWintersForecast_def Let_def split: prod.splits)

theorem holtWintersForecast_error_iff_witness:
  "(\<exists>e. holtWintersForecast [\<lparr>period = 2020, point_value = 10\<rparr>] 10 default_params = Inl e) \<and>
   (\<exists>r. holtWintersForecast
           [\<lparr>period = 2020, point_value = 10\<rparr>, \<lparr>period = 2021, point_value = 20\<rparr>] 10
           default_params = Inr r)"
  using holtWintersForecast_error_iff[of "[\<lparr>period = 2020, point_value = 10\<rparr>]" 10 default_params]
    holtWintersForecast_error_iff
      [of "[\<lparr>period = 2020, point_value = 10\<rparr>, \<lparr>period = 2021, point_value = 20\<rparr>]" 10
          default_params]
  by simp

section \<open>The smoothing recurrence and the linear forecast\<close>

text \<open>
  C4. For every series of at least 2 points, every horizon \<open>h\<close> and all smoothing
  parameters, \<open>holtWintersForecast\<close> returns a result whose forecast is the linear
  extrapolation \<open>finalLevel + i * finalTrend\<close> for \<open>i = 1..h\<close>, where the final level and
  trend are reached from \<open>level = values[0]\<close>, \<open>trend = values[1] - values[0]\<close> by the step
  \<open>newLevel = alpha*value + (1-alpha)*(level+trend)\<close>,
  \<open>newTrend = beta*(newLevel-level) + (1-beta)*trend\<close> over the points after the first;
  the forecast has length \<open>h\<close>.
\<close>

theorem holtWintersForecast_algorithm:
  assumes len: "2 \<le> length data"
  shows "\<exists>r. holtWintersForecast data h params = Inr r \<and>
     forecast r =
       map (\<lambda>i. fst (holt_final params (map point_value data))
                  + of_int i * snd (holt_final params (map point_value data))) [1..h] \<and>
     length (forecast r) = nat h \<and>
     (\<forall>i. 1 \<le> i \<and> i \<le> h \<longrightarrow>
        forecast r ! nat (i - 1) =
          fst (holt_final params (map point_value data))
            + of_int i * snd (holt_final params (map point_value data)))"
proof -
  obtain r where res: "holtWintersForecast data h params = Inr r"
    using holtWintersForecast_returns[OF len] by blast
  have fc: "forecast r =
       map (\<lambda>i. fst (holt_final params (map point_value data))
                  + of_int i * snd (holt_final params (map point_value data))) [1..h]"
    by (rule holtWintersForecast_forecast[OF len res])
  have ln: "length (forecast r) = nat h"
    by (simp add: fc)
  have nth: "forecast r ! nat (i - 1) =
          fst (holt_final params (map point_value data))
            + of_int i * snd (holt_final params (map point_value data))"
    if "1 \<le> i \<and> i \<le> h" for i
  proof -
    have "nat (i - 1) < length [1..h]" using that by simp
    moreover have "[1..h] ! nat (i - 1) = i" using that by simp
    ultimately show ?thesis by (simp add: fc)
  qed
  show ?thesis
    using res fc ln nth by blast
qed

theorem holtWintersForecast_algorithm_witness:
  "\<exists>r. holtWintersForecast
         [\<lparr>period = 2020, point_value = 10\<rparr>, \<lparr>period = 2021, point_value = 20\<rparr>,
          \<lparr>period = 2022, point_value = 40\<rparr>] 3 \<lparr>alpha = 1 / 2, beta = 1 / 2\<rparr> = Inr r \<and>
       forecast r = [95 / 2, 60, 145 / 2]"
proof -
  let ?d = "[\<lparr>period = 2020, point_value = 10\<rparr>, \<lparr>period = 2021, point_value = 20\<rparr>,
          \<lparr>period = 2022, point_value = 40\<rparr>]"
  let ?p = "\<lparr>alpha = 1 / 2, beta = 1 / 2\<rparr>"
  have len: "2 \<le> length ?d" by simp
  have hf: "holt_final ?p (map point_value ?d) = (35, 25 / 2)"
    by (simp add: holt_final_def holt_step_def Let_def)
  have up: "[1..3::int] = [1, 2, 3]"
    by (simp add: upto_rec1)
  show ?thesis
    using holtWintersForecast_algorithm[OF len, of 3 ?p]
    unfolding hf up by auto
qed

section \<open>The fit error\<close>

text \<open>
  C5 as stated takes each term of the mean as \<open>|actual - fitted| / actual * 100\<close>. The
  code takes the absolute value of the whole ratio, so on the series \<open>-1, -2\<close> (both
  values non-zero) it returns the fit error 50, where the stated mean is -50.
\<close>

theorem mape_unsigned_numerator_counterexample:
  "holtWintersForecast
     [\<lparr>period = 2020, point_value = - 1\<rparr>, \<lparr>period = 2021, point_value = - 2\<rparr>] 1
     \<lparr>alpha = 1 / 2, beta = 1 / 2\<rparr> =
   Inr \<lparr>forecast = [- 3],
        confidenceBands = \<lparr>lower = [Num (- (3 / 2))], upper = [Num (- (9 / 2))]\<rparr>,
        mape = Num 50\<rparr> \<and>
   smoothed_values \<lparr>alpha = 1 / 2, beta = 1 / 2\<rparr> [- 1, - 2] = [- 1, - 2] \<and>
   mape_unsigned_numerator [- 1, - 2] [- 1, - 2] = - 50 \<and>
   Num 50 \<noteq> Num (mape_unsigned_numerator [- 1, - 2] [- 1, - 2])"
  by (simp add: holtWintersForecast_def smooth_loop.simps forecast_loop.simps
      percentage_error_def enumerate_eq_zip num_sub_def Let_def
      mape_unsigned_numerator_def smoothed_values_def)

text \<open>
  C5, as amended. For every series of at least 2 points whose values at the indices from 1
  on are non-zero, \<open>smoothed\<close> has one entry per point and the returned \<open>mape\<close> is the
  mean, over the indices \<open>i\<close> from 1 on, of \<open>|(values[i] - smoothed[i-1]) / values[i]| * 100\<close>:
  the absolute value is taken of the whole ratio. Where those values are all positive this
  is the mean of \<open>|values[i] - smoothed[i-1]| / values[i] * 100\<close>.
\<close>

theorem holtWintersForecast_mape_absolute_ratio:
  assumes len: "2 \<le> length data"
    and nz: "\<forall>i. 1 \<le> i \<and> i < length data \<longrightarrow> point_value (data ! i) \<noteq> 0"
  shows "\<exists>r. holtWintersForecast data periods params = Inr r \<and>
     length (smoothed_values params (map point_value data)) = length data \<and>
     mape r = Num (mape_absolute_ratio (map point_value data)
                     (smoothed_values params (map point_value data))) \<and>
     ((\<forall>i. 1 \<le> i \<and> i < length data \<longrightarrow> 0 < point_value (data ! i)) \<longrightarrow>
        mape r = Num (mape_unsigned_numerator (map point_value data)
                        (smoothed_values params (map point_value data))))"
proof -
  obtain r where res: "holtWintersForecast data periods params = Inr r"
    using holtWintersForecast_returns[OF len] by blast
  let ?vals = "map point_value data"
  let ?sm = "smoothed_values params ?vals"
  have nz': "\<forall>i. 1 \<le> i \<and> i < length ?vals \<longrightarrow> ?vals ! i \<noteq> 0"
    using nz by simp
  have n1: "real (length data - 1) \<noteq> 0"
    using len by simp
  have "mape r = num_div (foldl num_add (Num 0)
        (map (percentage_error ?sm) (enumerate 0 (drop 1 ?vals))))
       (Num (real (length data - 1)))"
    by (rule holtWintersForecast_mape[OF len res])
  also have "\<dots> = Num (mape_absolute_ratio ?vals ?sm)"
    unfolding errors_finite[OF nz'] foldl_num_add_Num
    using n1 by (simp add: mape_absolute_ratio_def)
  finally have m: "mape r = Num (mape_absolute_ratio ?vals ?sm)" .
  have "mape r = Num (mape_unsigned_numerator ?vals ?sm)"
    if "\<forall>i. 1 \<le> i \<and> i < length data \<longrightarrow> 0 < point_value (data ! i)"
  proof -
    have "\<forall>i. 1 \<le> i \<and> i < length ?vals \<longrightarrow> 0 < ?vals ! i"
      using that by simp
    then show ?thesis
      using m mape_positive_actuals[of ?vals ?sm] by simp
  qed
  moreover have "length (smoothed_values params ?vals) = length data"
  proof -
    have "?vals \<noteq> []" using len by auto
    then show ?thesis
      using smoothed_values_length[of ?vals params] by simp
  qed
  ultimately show ?thesis
    using res m by blast
qed

theorem holtWintersForecast_mape_absolute_ratio_witness:
  "\<exists>r. holtWintersForecast
         [\<lparr>period = 2020, point_value = - 1\<rparr>, \<lparr>period = 2021, point_value = - 2\<rparr>] 1
         \<lparr>alpha = 1 / 2, beta = 1 / 2\<rparr> = Inr r \<and>
       mape r = Num 50"
proof -
  let ?d = "[\<lparr>period = 2020, point_value = - 1\<rparr>, \<lparr>period = 2021, point_value = - 2\<rparr>]"
  let ?p = "\<lparr>alpha = 1 / 2, beta = 1 / 2\<rparr>"
  have len: "2 \<le> length ?d" by simp
  have nz: "\<forall>i. 1 \<le> i \<and> i < length ?d \<longrightarrow> point_value (?d ! i) \<noteq> 0"
    by (auto simp: nth_Cons')
  have sm: "smoothed_values ?p (map point_value ?d) = [- 1, - 2]"
    by (simp add: smoothed_values_def smooth_loop.simps Let_def)
  have m: "mape_absolute_ratio (map point_value ?d) [- 1, - 2] = 50"
    by (simp add: mape_absolute_ratio_def)
  show ?thesis
    using holtWintersForecast_mape_absolute_ratio[OF len nz, of 1 ?p]
    unfolding sm m by auto
qed

section \<open>The confidence bands\<close>

text \<open>
  C6. For every series of at least 2 points and every horizon, the lower and the upper
  confidence band have the length of the forecast, which is the horizon (10 by default),
  and are elementwise \<open>forecast[i] * (1 - mape/100)\<close> and \<open>forecast[i] * (1 + mape/100)\<close>.
\<close>

theorem holtWintersForecast_confidence_bands:
  assumes len: "2 \<le> length data"
  shows "\<exists>r. holtWintersForecast data periods params = Inr r \<and>
     length (forecast r) = nat periods \<and>
     (0 \<le> periods \<longrightarrow> int (length (forecast r)) = periods) \<and>
     length (lower (confidenceBands r)) = length (forecast r) \<and>
     length (upper (confidenceBands r)) = length (forecast r) \<and>
     lower (confidenceBands r) =
       map (\<lambda>f. num_mul (Num f) (num_sub (Num 1) (num_div (mape r) (Num 100))))
         (forecast r) \<and>
     upper (confidenceBands r) =
       map (\<lambda>f. num_mul (Num f) (num_add (Num 1) (num_div (mape r) (Num 100))))
         (forecast r) \<and>
     (\<forall>m. mape r = Num m \<longrightarrow>
        lower (confidenceBands r) = map (\<lambda>f. Num (f * (1 - m / 100))) (forecast r) \<and>
        upper (confidenceBands r) = map (\<lambda>f. Num (f * (1 + m / 100))) (forecast r))"
proof -
  obtain r where res: "holtWintersForecast data periods params = Inr r"
    using holtWintersForecast_returns[OF len] by blast
  have ln: "length (forecast r) = nat periods"
    by (simp add: holtWintersForecast_forecast[OF len res])
  note lo = holtWintersForecast_bands(1)[OF len res]
  note up = holtWintersForecast_bands(2)[OF len res]
  have ll: "length (lower (confidenceBands r)) = length (forecast r)"
    by (subst lo) simp
  have lu: "length (upper (confidenceBands r)) = length (forecast r)"
    by (subst up) simp
  have fin: "lower (confidenceBands r) = map (\<lambda>f. Num (f * (1 - m / 100))) (forecast r) \<and>
        upper (confidenceBands r) = map (\<lambda>f. Num (f * (1 + m / 100))) (forecast r)"
    if "mape r = Num m" for m
  proof
    show "lower (confidenceBands r) = map (\<lambda>f. Num (f * (1 - m / 100))) (forecast r)"
      by (subst lo) (simp add: that num_sub_def)
    show "upper (confidenceBands r) = map (\<lambda>f. Num (f * (1 + m / 100))) (forecast r)"
      by (subst up) (simp add: that)
  qed
  have li: "0 \<le> periods \<longrightarrow> int (length (forecast r)) = periods"
    by (simp add: ln)
  show ?thesis
    using res ln li ll lu lo up fin by blast
qed

theorem holtWintersForecast_confidence_bands_witness:
  "\<exists>r. holtWintersForecast
         [\<lparr>period = 2020, point_value = 10\<rparr>, \<lparr>period = 2021, point_value = 20\<rparr>] 10
         default_params = Inr r \<and>
       length (forecast r) = 10 \<and>
       length (lower (confidenceBands r)) = 10 \<and>
       length (upper (confidenceBands r)) = 10"
proof -
  let ?d = "[\<lparr>period = 2020, point_value = 10\<rparr>, \<lparr>period = 2021, point_value = 20\<rparr>]"
  have len: "2 \<le> length ?d" by simp
  show ?thesis
    using holtWintersForecast_confidence_bands[OF len, of 10 default_params]
    by auto
qed

section \<open>The three-series wrapper\<close>

text \<open>
  C1 as stated lets a series of at least 2 points keep its projection when another series
  fails. With an empty income series and two points in each of the other two series the
  call ends in the forecaster's error and yields no projection.
\<close>

theorem generateProjections_no_isolation_counterexample:
  "generateProjections []
     [\<lparr>period = 2020, point_value = 10\<rparr>, \<lparr>period = 2021, point_value = 20\<rparr>]
     [\<lparr>period = 2020, point_value = 30\<rparr>, \<lparr>period = 2021, point_value = 31\<rparr>] =
   Inl (Error ''Need at least 2 data points for forecasting'')"
  by (simp add: generateProjections_def holtWintersForecast_def)

text \<open>
  C1, as amended. \<open>generateProjections\<close> does not isolate the three series: when all three
  have at least 2 points it returns the forecaster's three results at horizon 10, and as
  soon as one series has fewer than 2 points it raises the forecaster's error and returns
  no projection.
\<close>

theorem generateProjections_all_or_nothing:
  "(2 \<le> length incomeData \<and> 2 \<le> length populationData \<and> 2 \<le> length ageData \<longrightarrow>
      (\<exists>ri rp ra.
         holtWintersForecast incomeData 10 default_params = Inr ri \<and>
         holtWintersForecast populationData 10 default_params = Inr rp \<and>
         holtWintersForecast ageData 10 default_params = Inr ra \<and>
         generateProjections incomeData populationData ageData =
           Inr \<lparr>income = ri, population = rp, age = ra\<rparr>)) \<and>
   (length incomeData < 2 \<or> length populationData < 2 \<or> length ageData < 2 \<longrightarrow>
      generateProjections incomeData populationData ageData =
        Inl (Error ''Need at least 2 data points for forecasting''))"
proof (intro conjI impI)
  assume all: "2 \<le> length incomeData \<and> 2 \<le> length populationData \<and> 2 \<le> length ageData"
  then obtain ri rp ra where
    "holtWintersForecast incomeData 10 default_params = Inr ri"
    "holtWintersForecast populationData 10 default_params = Inr rp"
    "holtWintersForecast ageData 10 default_params = Inr ra"
    using holtWintersForecast_returns by meson
  then show "\<exists>ri rp ra.
         holtWintersForecast incomeData 10 default_params = Inr ri \<and>
         holtWintersForecast populationData 10 default_params = Inr rp \<and>
         holtWintersForecast ageData 10 default_params = Inr ra \<and>
         generateProjections incomeData populationData ageData =
           Inr \<lparr>income = ri, population = rp, age = ra\<rparr>"
    by (simp add: generateProjections_def)
next
  assume short: "length incomeData < 2 \<or> length populationData < 2 \<or> length ageData < 2"
  show "generateProjections incomeData populationData ageData =
        Inl (Error ''Need at least 2 data points for forecasting'')"
  proof (cases "length incomeData < 2")
    case True
    then show ?thesis
      by (simp add: generateProjections_def holtWintersForecast_short)
  next
    case i: False
    then obtain ri where ri: "holtWintersForecast incomeData 10 default_params = Inr ri"
      using holtWintersForecast_returns[of incomeData 10 default_params] by auto
    show ?thesis
    proof (cases "length populationData < 2")
      case True
      then show ?thesis
        by (simp add: generateProjections_def ri holtWintersForecast_short)
    next
      case p: False
      then obtain rp where rp: "holtWintersForecast populationData 10 default_params = Inr rp"
        using holtWintersForecast_returns[of populationData 10 default_params] by auto
      from short i p have "length ageData < 2" by simp
      then show ?thesis
        by (simp add: generateProjections_def ri rp holtWintersForecast_short)
    qed
  qed
qed

theorem generateProjections_all_or_nothing_witness:
  "generateProjections
     [\<lparr>period = 2020, point_value = 10\<rparr>, \<lparr>period = 2021, point_value = 20\<rparr>]
     [\<lparr>period = 2020, point_value = 10\<rparr>]
     [\<lparr>period = 2020, point_value = 30\<rparr>, \<lparr>period = 2021, point_value = 31\<rparr>] =
   Inl (Error ''Need at least 2 data points for forecasting'') \<and>
   (\<exists>ri rp ra.
      generateProjections
        [\<lparr>period = 2020, point_value = 10\<rparr>, \<lparr>period = 2021, point_value = 20\<rparr>]
        [\<lparr>period = 2020, point_value = 10\<rparr>, \<lparr>period = 2021, point_value = 11\<rparr>]
        [\<lparr>period = 2020, point_value = 30\<rparr>, \<lparr>period = 2021, point_value = 31\<rparr>] =
      Inr \<lparr>income = ri, population = rp, age = ra\<rparr>)"
proof
  show "generateProjections
     [\<lparr>period = 2020, point_value = 10\<rparr>, \<lparr>period = 2021, point_value = 20\<rparr>]
     [\<lparr>period = 2020, point_value = 10\<rparr>]
     [\<lparr>period = 2020, point_value = 30\<rparr>, \<lparr>period = 2021, point_value = 31\<rparr>] =
   Inl (Error ''Need at least 2 data points for forecasting'')"
    using generateProjections_all_or_nothing
      [of "[\<lparr>period = 2020, point_value = 10\<rparr>, \<lparr>period = 2021, point_value = 20\<rparr>]"
          "[\<lparr>period = 2020, point_value = 10\<rparr>]"
          "[\<lparr>period = 2020, point_value = 30\<rparr>, \<lparr>period = 2021, point_value = 31\<rparr>]"]
    by simp
  show "\<exists>ri rp ra.
      generateProjections
        [\<lparr>period = 2020, point_value = 10\<rparr>, \<lparr>period = 2021, point_value = 20\<rparr>]
        [\<lparr>period = 2020, point_value = 10\<rparr>, \<lparr>period = 2021, point_value = 11\<rparr>]
        [\<lparr>period = 2020, point_value = 30\<rparr>, \<lparr>period = 2021, point_value = 31\<rparr>] =
      Inr \<lparr>income = ri, population = rp, age = ra\<rparr>"
    using generateProjections_all_or_nothing
      [of "[\<lparr>period = 2020, point_value = 10\<rparr>, \<lparr>period = 2021, point_value = 20\<rparr>]"
          "[\<lparr>period = 2020, point_value = 10\<rparr>, \<lparr>period = 2021, point_value = 11\<rparr>]"
          "[\<lparr>period = 2020, point_value = 30\<rparr>, \<lparr>period = 2021, point_value = 31\<rparr>]"]
    by auto
qed

section \<open>Repackaging a projection\<close>

text \<open>
  C10. For every projection result with a non-empty forecast and non-empty confidence
  bands, and every base year, \<open>formatProjectionForAPI\<close> assigns the last forecast value to
  \<open>population_idx\<close>, \<open>hh_income_idx\<close> and \<open>age_median\<close> alike, the last lower and upper band
  values to \<open>p25.hh_income_idx\<close> and \<open>p75.hh_income_idx\<close>, and the record it returns does
  not depend on the base year.
\<close>

theorem formatProjectionForAPI_final_values:
  assumes "forecast result \<noteq> []"
    and "lower (confidenceBands result) \<noteq> []"
    and "upper (confidenceBands result) \<noteq> []"
  shows "population_idx (formatProjectionForAPI result baseYear) = Val (Num (last (forecast result))) \<and>
     hh_income_idx (formatProjectionForAPI result baseYear) = Val (Num (last (forecast result))) \<and>
     age_median (formatProjectionForAPI result baseYear) = Val (Num (last (forecast result))) \<and>
     p25_hh_income_idx (formatProjectionForAPI result baseYear) =
       Val (last (lower (confidenceBands result))) \<and>
     p75_hh_income_idx (formatProjectionForAPI result baseYear) =
       Val (last (upper (confidenceBands result))) \<and>
     formatProjectionForAPI result baseYear = formatProjectionForAPI result otherYear"
  using assms
  by (simp add: formatProjectionForAPI_def last_element_def Let_def last_conv_nth last_map)

theorem formatProjectionForAPI_final_values_witness:
  "formatProjectionForAPI
     \<lparr>forecast = [101, 102, 103],
      confidenceBands = \<lparr>lower = [Num 91, Num 92, Num 93], upper = [Num 111, Num 112, Num 113]\<rparr>,
      mape = Num 10\<rparr> 2024 =
   \<lparr>population_idx = Val (Num 103), hh_income_idx = Val (Num 103), age_median = Val (Num 103),
    p25_hh_income_idx = Val (Num 93), p75_hh_income_idx = Val (Num 113)\<rparr>"
proof -
  let ?r = "\<lparr>forecast = [101, 102, 103],
      confidenceBands = \<lparr>lower = [Num 91, Num 92, Num 93], upper = [Num 111, Num 112, Num 113]\<rparr>,
      mape = Num 10\<rparr>"
  have a: "forecast ?r \<noteq> []" "lower (confidenceBands ?r) \<noteq> []"
    "upper (confidenceBands ?r) \<noteq> []"
    by simp_all
  show ?thesis
    using formatProjectionForAPI_final_values[OF a, of 2024 2024]
    by (cases "formatProjectionForAPI ?r 2024") simp
qed

section \<open>The fallback of the projection step\<close>

text \<open>
  C2. For every geography whose income or age series has fewer than 2 points, so that the
  forecaster raises, \<open>calculateProjections\<close> catches the failure and returns the neutral
  record: every index 1.0 and a \<open>null\<close> median age.
\<close>

theorem calculateProjections_fallback:
  assumes "length (income_data data) < 2 \<or> length (age_data data) < 2"
  shows "calculateProjections geoId data =
     \<lparr>population_idx = Val (Num 1), hh_income_idx = Val (Num 1), age_median = Null,
      p25_hh_income_idx = Val (Num 1), p75_hh_income_idx = Val (Num 1)\<rparr>"
proof (cases "length (income_data data) < 2")
  case True
  then show ?thesis
    by (simp add: calculateProjections_def holtWintersForecast_short neutral_projection_def)
next
  case False
  then obtain ri where
    ri: "holtWintersForecast (map to_point (income_data data)) 10 default_params = Inr ri"
    using holtWintersForecast_returns[of "map to_point (income_data data)" 10 default_params]
    by auto
  from False assms have "length (age_data data) < 2" by simp
  then show ?thesis
    by (simp add: calculateProjections_def ri holtWintersForecast_short neutral_projection_def)
qed

theorem calculateProjections_fallback_witness:
  "calculateProjections ''06037''
     \<lparr>income_data = [\<lparr>obs_period = 2023, obs_value = 65000\<rparr>],
      age_data = [\<lparr>obs_period = 2022, obs_value = 36\<rparr>, \<lparr>obs_period = 2023, obs_value = 37\<rparr>]\<rparr> =
   \<lparr>population_idx = Val (Num 1), hh_income_idx = Val (Num 1), age_median = Null,
    p25_hh_income_idx = Val (Num 1), p75_hh_income_idx = Val (Num 1)\<rparr>"
  using calculateProjections_fallback
    [of "\<lparr>income_data = [\<lparr>obs_period = 2023, obs_value = 65000\<rparr>],
      age_data = [\<lparr>obs_period = 2022, obs_value = 36\<rparr>, \<lparr>obs_period = 2023, obs_value = 37\<rparr>]\<rparr>"
        "''06037''"]
  by simp

section \<open>The growth rate\<close>

text \<open>
  C7. \<open>calculateCAGR\<close> returns \<open>(endValue/startValue)^(1/years) - 1\<close> when the start value,
  the end value and the number of years are all positive, and 0 when one of them is zero
  or negative; \<open>calculateCAGR(100, 100, 5)\<close> is 0 and \<open>calculateCAGR(100, 200, 1)\<close> is 1.
\<close>

theorem calculateCAGR_contract:
  "(0 < startValue \<and> 0 < endValue \<and> 0 < years \<longrightarrow>
      calculateCAGR startValue endValue years = (endValue / startValue) powr (1 / years) - 1) \<and>
   (startValue \<le> 0 \<or> endValue \<le> 0 \<or> years \<le> 0 \<longrightarrow>
      calculateCAGR startValue endValue years = 0) \<and>
   calculateCAGR 100 100 5 = 0 \<and> calculateCAGR 100 200 1 = 1"
  by (auto simp: calculateCAGR_def)

theorem calculateCAGR_contract_witness:
  "calculateCAGR 100 400 2 = 4 powr (1 / 2) - 1 \<and> calculateCAGR (- 5) 400 2 = 0 \<and>
   calculateCAGR 100 0 2 = 0 \<and> calculateCAGR 100 400 0 = 0"
  using calculateCAGR_contract[of 100 400 2] calculateCAGR_contract[of "- 5" 400 2]
    calculateCAGR_contract[of 100 0 2] calculateCAGR_contract[of 100 400 0]
  by simp

section \<open>The rolling average\<close>

text \<open>
  C8. \<open>calculateRollingAverage(data, year)\<close> is the arithmetic mean of \<open>netMigration1834\<close>
  over exactly the points whose year lies in the inclusive window from \<open>year - 2\<close> to
  \<open>year\<close>, and 0 when no point lies in the window; it is 0 on the empty data set and 20
  on the points (2022, 10), (2023, 20), (2024, 30) at the year 2024.
\<close>

theorem calculateRollingAverage_window_mean:
  "calculateRollingAverage data y =
     (if filter (\<lambda>d. y - 2 \<le> year d \<and> year d \<le> y) data = [] then 0
      else sum_list (map netMigration1834 (filter (\<lambda>d. y - 2 \<le> year d \<and> year d \<le> y) data))
             / real (length (filter (\<lambda>d. y - 2 \<le> year d \<and> year d \<le> y) data))) \<and>
   calculateRollingAverage [] y = 0 \<and>
   calculateRollingAverage
     [\<lparr>year = 2022, netMigration1834 = 10\<rparr>, \<lparr>year = 2023, netMigration1834 = 20\<rparr>,
      \<lparr>year = 2024, netMigration1834 = 30\<rparr>] 2024 = 20"
  by (simp add: calculateRollingAverage_def foldl_add_sum_list Let_def)

theorem calculateRollingAverage_window_mean_witness:
  "calculateRollingAverage
     [\<lparr>year = 2020, netMigration1834 = 100\<rparr>, \<lparr>year = 2023, netMigration1834 = 20\<rparr>,
      \<lparr>year = 2024, netMigration1834 = 30\<rparr>, \<lparr>year = 2025, netMigration1834 = 7\<rparr>] 2024 = 25 \<and>
   calculateRollingAverage [\<lparr>year = 2020, netMigration1834 = 100\<rparr>] 2024 = 0"
  using calculateRollingAverage_window_mean
     [of "[\<lparr>year = 2020, netMigration1834 = 100\<rparr>, \<lparr>year = 2023, netMigration1834 = 20\<rparr>,
      \<lparr>year = 2024, netMigration1834 = 30\<rparr>, \<lparr>year = 2025, netMigration1834 = 7\<rparr>]" 2024]
    calculateRollingAverage_window_mean [of "[\<lparr>year = 2020, netMigration1834 = 100\<rparr>]" 2024]
  by simp

section \<open>Rounding to a double\<close>

lemma double_round_binade:
  assumes "2 ^ k \<le> \<bar>x\<bar>" and "\<bar>x\<bar> < 2 ^ Suc k"
  shows "double_round x =
     of_int (round_even (x / quantum (int k - 52))) * quantum (int k - 52)"
proof -
  have pos: "0 < \<bar>x\<bar>"
    using assms(1) by (meson less_le_trans zero_less_numeral zero_less_power)
  have a: "2 powr real k = (2::real) ^ k"
    by (simp add: powr_realpow)
  have b: "2 powr (real k + 1) = (2::real) ^ Suc k"
    using powr_realpow[of 2 "Suc k"] by (simp add: add.commute)
  have "2 powr (of_int (int k)) \<le> \<bar>x\<bar> \<and> \<bar>x\<bar> < 2 powr (of_int (int k + 1))"
    using assms by (simp only: of_int_of_nat_eq of_int_add of_int_1 a b)
  then have "\<lfloor>log 2 \<bar>x\<bar>\<rfloor> = int k"
    using floor_log_eq_powr_iff[of "\<bar>x\<bar>" 2 "int k"] pos by simp
  then show ?thesis
    using pos by (simp add: double_round_def Let_def)
qed

lemma double_round_4: "double_round 4 = 4"
  by (subst double_round_binade[where k = 2]) (simp_all add: quantum_def round_even_def Let_def)

lemma double_round_8: "double_round 8 = 8"
  by (subst double_round_binade[where k = 3]) (simp_all add: quantum_def round_even_def Let_def)

lemma double_round_13: "double_round 13 = 13"
  by (subst double_round_binade[where k = 3]) (simp_all add: quantum_def round_even_def Let_def)

lemma double_round_14: "double_round 14 = 14"
  by (subst double_round_binade[where k = 3]) (simp_all add: quantum_def round_even_def Let_def)

lemma double_round_28: "double_round 28 = 28"
  by (subst double_round_binade[where k = 4]) (simp_all add: quantum_def round_even_def Let_def)

lemma double_round_43: "double_round 43 = 43"
  by (subst double_round_binade[where k = 5]) (simp_all add: quantum_def round_even_def Let_def)

lemma double_round_43_thirds: "double_round (43 / 3) = 8068949332372139 / 2 ^ 49"
  by (subst double_round_binade[where k = 3]) (simp_all add: quantum_def round_even_def Let_def)

lemma double_round_13_thirds: "double_round (13 / 3) = 4878899596318037 / 2 ^ 50"
  by (subst double_round_binade[where k = 2]) (simp_all add: quantum_def round_even_def Let_def)

lemma double_round_tie_down:
  "double_round (4878899596318037 / 2 ^ 50 + 10) = 8068949332372138 / 2 ^ 49"
  by (subst double_round_binade[where k = 3]) (simp_all add: quantum_def round_even_def Let_def)

lemma double_round_low: "double_round (4878899596318039 / 1125899906842624) = 4878899596318039 / 1125899906842624"
  by (subst double_round_binade[where k = 2]) (simp_all add: quantum_def round_even_def Let_def)

lemma double_round_high: "double_round (2017237333093035 / 140737488355328) = 2017237333093035 / 140737488355328"
  by (subst double_round_binade[where k = 3]) (simp_all add: quantum_def round_even_def Let_def)

lemma double_round_tie_up:
  "double_round (4878899596318039 / 1125899906842624 + 10) = 2017237333093035 / 140737488355328"
  by (subst double_round_binade[where k = 3]) (simp_all add: quantum_def round_even_def Let_def)

lemma double_round_low_minus_10:
  "double_round (4878899596318039 / 1125899906842624 - 10) = - (6380099472108201 / 1125899906842624)"
  by (subst double_round_binade[where k = 2]) (simp_all add: quantum_def round_even_def Let_def)

lemma tie_recent_average:
  "calculateRollingAverage_double
     [\<lparr>year = 2019, netMigration1834 = 4\<rparr>, \<lparr>year = 2020, netMigration1834 = 4\<rparr>,
      \<lparr>year = 2021, netMigration1834 = 5\<rparr>, \<lparr>year = 2022, netMigration1834 = 14\<rparr>,
      \<lparr>year = 2023, netMigration1834 = 14\<rparr>, \<lparr>year = 2024, netMigration1834 = 15\<rparr>] 2024 =
   8068949332372139 / 2 ^ 49"
  by (simp add: calculateRollingAverage_double_def double_round_14 double_round_28
      double_round_43 double_round_43_thirds)

lemma tie_previous_average:
  "calculateRollingAverage_double
     [\<lparr>year = 2019, netMigration1834 = 4\<rparr>, \<lparr>year = 2020, netMigration1834 = 4\<rparr>,
      \<lparr>year = 2021, netMigration1834 = 5\<rparr>, \<lparr>year = 2022, netMigration1834 = 14\<rparr>,
      \<lparr>year = 2023, netMigration1834 = 14\<rparr>, \<lparr>year = 2024, netMigration1834 = 15\<rparr>] 2021 =
   4878899596318037 / 2 ^ 50"
  by (simp add: calculateRollingAverage_double_def double_round_4 double_round_8
      double_round_13 double_round_13_thirds)

lemma ulp_recent_average:
  "calculateRollingAverage_double
     [\<lparr>year = 2021, netMigration1834 = 4878899596318039 / 1125899906842624\<rparr>,
      \<lparr>year = 2024, netMigration1834 = 2017237333093035 / 140737488355328\<rparr>] 2024 =
   2017237333093035 / 140737488355328"
  by (simp add: calculateRollingAverage_double_def double_round_high)

lemma ulp_previous_average:
  "calculateRollingAverage_double
     [\<lparr>year = 2021, netMigration1834 = 4878899596318039 / 1125899906842624\<rparr>,
      \<lparr>year = 2024, netMigration1834 = 2017237333093035 / 140737488355328\<rparr>] 2021 =
   4878899596318039 / 1125899906842624"
  by (simp add: calculateRollingAverage_double_def double_round_low)

section \<open>The migration trend\<close>

text \<open>
  C9 as stated decides the trend by whether the later average exceeds the earlier by more
  than 10. The code decides on doubles. On the integer series 4, 4, 5, 14, 14, 15 for the
  years 2019 to 2024 the two averages are 43/3 and 13/3, which differ by exactly 10, and
  the code returns increasing. On the two points 4.333333333333335 (2021) and
  14.333333333333336 (2024) the computed averages are these two doubles, the later exceeds
  the earlier by more than 10, and the code returns stable, because the sum of the
  earlier average and 10 rounds up to the later one.
\<close>

theorem analyzeMigrationSignal_exact_threshold_counterexample:
  "trend (analyzeMigrationSignal
     [\<lparr>year = 2019, netMigration1834 = 4\<rparr>, \<lparr>year = 2020, netMigration1834 = 4\<rparr>,
      \<lparr>year = 2021, netMigration1834 = 5\<rparr>, \<lparr>year = 2022, netMigration1834 = 14\<rparr>,
      \<lparr>year = 2023, netMigration1834 = 14\<rparr>, \<lparr>year = 2024, netMigration1834 = 15\<rparr>] 2024) = increasing \<and>
   calculateRollingAverage
     [\<lparr>year = 2019, netMigration1834 = 4\<rparr>, \<lparr>year = 2020, netMigration1834 = 4\<rparr>,
      \<lparr>year = 2021, netMigration1834 = 5\<rparr>, \<lparr>year = 2022, netMigration1834 = 14\<rparr>,
      \<lparr>year = 2023, netMigration1834 = 14\<rparr>, \<lparr>year = 2024, netMigration1834 = 15\<rparr>] 2024 = 43 / 3 \<and>
   calculateRollingAverage
     [\<lparr>year = 2019, netMigration1834 = 4\<rparr>, \<lparr>year = 2020, netMigration1834 = 4\<rparr>,
      \<lparr>year = 2021, netMigration1834 = 5\<rparr>, \<lparr>year = 2022, netMigration1834 = 14\<rparr>,
      \<lparr>year = 2023, netMigration1834 = 14\<rparr>, \<lparr>year = 2024, netMigration1834 = 15\<rparr>] (2024 - 3) = 13 / 3 \<and>
   \<not> (43 / 3 > 13 / 3 + (10::real)) \<and>
   trend (analyzeMigrationSignal
     [\<lparr>year = 2021, netMigration1834 = 4878899596318039 / 1125899906842624\<rparr>,
      \<lparr>year = 2024, netMigration1834 = 2017237333093035 / 140737488355328\<rparr>] 2024) = stable \<and>
   calculateRollingAverage_double
     [\<lparr>year = 2021, netMigration1834 = 4878899596318039 / 1125899906842624\<rparr>,
      \<lparr>year = 2024, netMigration1834 = 2017237333093035 / 140737488355328\<rparr>] 2024 = 2017237333093035 / 140737488355328 \<and>
   calculateRollingAverage_double
     [\<lparr>year = 2021, netMigration1834 = 4878899596318039 / 1125899906842624\<rparr>,
      \<lparr>year = 2024, netMigration1834 = 2017237333093035 / 140737488355328\<rparr>] (2024 - 3) = 4878899596318039 / 1125899906842624 \<and>
   2017237333093035 / 140737488355328 > 4878899596318039 / 1125899906842624 + (10::real)"
proof -
  have tp: "calculateRollingAverage_double
     [\<lparr>year = 2019, netMigration1834 = 4\<rparr>, \<lparr>year = 2020, netMigration1834 = 4\<rparr>,
      \<lparr>year = 2021, netMigration1834 = 5\<rparr>, \<lparr>year = 2022, netMigration1834 = 14\<rparr>,
      \<lparr>year = 2023, netMigration1834 = 14\<rparr>, \<lparr>year = 2024, netMigration1834 = 15\<rparr>] (2024 - 3) = 4878899596318037 / 2 ^ 50"
    using tie_previous_average by simp
  have t: "trend (analyzeMigrationSignal
     [\<lparr>year = 2019, netMigration1834 = 4\<rparr>, \<lparr>year = 2020, netMigration1834 = 4\<rparr>,
      \<lparr>year = 2021, netMigration1834 = 5\<rparr>, \<lparr>year = 2022, netMigration1834 = 14\<rparr>,
      \<lparr>year = 2023, netMigration1834 = 14\<rparr>, \<lparr>year = 2024, netMigration1834 = 15\<rparr>] 2024) = increasing"
    by (simp only: analyzeMigrationSignal_def Let_def tie_recent_average tp
        double_round_tie_down) simp
  have u1: "calculateRollingAverage_double
     [\<lparr>year = 2021, netMigration1834 = 4878899596318039 / 1125899906842624\<rparr>,
      \<lparr>year = 2024, netMigration1834 = 2017237333093035 / 140737488355328\<rparr>] (2024 - 3) = 4878899596318039 / 1125899906842624"
    using ulp_previous_average by simp
  have u: "trend (analyzeMigrationSignal
     [\<lparr>year = 2021, netMigration1834 = 4878899596318039 / 1125899906842624\<rparr>,
      \<lparr>year = 2024, netMigration1834 = 2017237333093035 / 140737488355328\<rparr>] 2024) = stable"
    by (simp only: analyzeMigrationSignal_def Let_def ulp_recent_average u1
        double_round_tie_up double_round_low_minus_10) simp
  have e1: "calculateRollingAverage
     [\<lparr>year = 2019, netMigration1834 = 4\<rparr>, \<lparr>year = 2020, netMigration1834 = 4\<rparr>,
      \<lparr>year = 2021, netMigration1834 = 5\<rparr>, \<lparr>year = 2022, netMigration1834 = 14\<rparr>,
      \<lparr>year = 2023, netMigration1834 = 14\<rparr>, \<lparr>year = 2024, netMigration1834 = 15\<rparr>] 2024 = 43 / 3"
    by (simp add: calculateRollingAverage_def)
  have e2: "calculateRollingAverage
     [\<lparr>year = 2019, netMigration1834 = 4\<rparr>, \<lparr>year = 2020, netMigration1834 = 4\<rparr>,
      \<lparr>year = 2021, netMigration1834 = 5\<rparr>, \<lparr>year = 2022, netMigration1834 = 14\<rparr>,
      \<lparr>year = 2023, netMigration1834 = 14\<rparr>, \<lparr>year = 2024, netMigration1834 = 15\<rparr>] (2024 - 3) = 13 / 3"
    by (simp add: calculateRollingAverage_def)
  have n: "\<not> (43 / 3 > 13 / 3 + (10::real))"
    by simp
  have g: "2017237333093035 / 140737488355328 > 4878899596318039 / 1125899906842624 + (10::real)"
    by simp
  show ?thesis
    using t u e1 e2 ulp_recent_average u1 n g by blast
qed

text \<open>
  C9, as amended. \<open>analyzeMigrationSignal\<close> classifies the trend by comparing the rolling
  average ending at the reference year with the rolling average ending three years
  earlier, both as computed in double arithmetic: increasing when the later average is
  greater than the double sum of the earlier average and 10, decreasing when it is less
  than the double difference of the earlier average and 10, stable otherwise.
\<close>

theorem analyzeMigrationSignal_trend:
  "trend (analyzeMigrationSignal data y) =
     (if calculateRollingAverage_double data y
           > double_round (calculateRollingAverage_double data (y - 3) + 10)
      then increasing
      else if calculateRollingAverage_double data y
           < double_round (calculateRollingAverage_double data (y - 3) - 10)
      then decreasing
      else stable)"
  by (simp add: analyzeMigrationSignal_def Let_def)

theorem analyzeMigrationSignal_trend_witness:
  "trend (analyzeMigrationSignal
     [\<lparr>year = 2019, netMigration1834 = 4\<rparr>, \<lparr>year = 2020, netMigration1834 = 4\<rparr>,
      \<lparr>year = 2021, netMigration1834 = 5\<rparr>, \<lparr>year = 2022, netMigration1834 = 14\<rparr>,
      \<lparr>year = 2023, netMigration1834 = 14\<rparr>, \<lparr>year = 2024, netMigration1834 = 15\<rparr>] 2024) = increasing"
proof -
  have p: "calculateRollingAverage_double
     [\<lparr>year = 2019, netMigration1834 = 4\<rparr>, \<lparr>year = 2020, netMigration1834 = 4\<rparr>,
      \<lparr>year = 2021, netMigration1834 = 5\<rparr>, \<lparr>year = 2022, netMigration1834 = 14\<rparr>,
      \<lparr>year = 2023, netMigration1834 = 14\<rparr>, \<lparr>year = 2024, netMigration1834 = 15\<rparr>] (2024 - 3) =
   4878899596318037 / 2 ^ 50"
    using tie_previous_average by simp
  show ?thesis
    by (simp only: analyzeMigrationSignal_trend tie_recent_average p double_round_tie_down) simp
qed

end
